theory Spec2Isabelle
  imports Main "HOL-Library.Word" "HOL-Library.Signed_Division"
begin

unbundle bit_operations_syntax

section \<open>The d64 disk image library: data model\<close>

text \<open>
  The library keeps a whole 1541 disk image in one byte vector (\<open>data\<close>) and overlays
  packed structs on it through pointer casts. The embedding keeps the image as a store
  from byte offsets to bytes; a pointer into the image is its byte offset. A call has one
  of three outcomes: it returns a value (\<open>Ret\<close>), it touches memory outside the image
  or outside a fixed-size array (\<open>Fault\<close>, undefined behaviour in C++), or, for the
  functions that follow sector chains, it does not return at all (\<open>None\<close> of the
  enclosing option type).
\<close>

type_synonym u8 = "8 word"

datatype 'a res = Fault | Ret 'a

datatype diskType = thirty_five_track | forty_track

text \<open>The enumerators of \<open>diskType\<close> as integers, as C++ compares them.\<close>

fun diskType_val :: "diskType \<Rightarrow> int" where
  "diskType_val thirty_five_track = 0"
| "diskType_val forty_track = 1"

datatype d64FileTypes = DEL | SEQ | PRG | USR | REL

fun FileTypes_val :: "d64FileTypes \<Rightarrow> u8" where
  "FileTypes_val DEL = 0"
| "FileTypes_val SEQ = 1"
| "FileTypes_val PRG = 2"
| "FileTypes_val USR = 3"
| "FileTypes_val REL = 4"

abbreviation (input) TRACKS_35 :: int where "TRACKS_35 \<equiv> 35"
abbreviation (input) TRACKS_40 :: int where "TRACKS_40 \<equiv> 40"
abbreviation (input) SECTOR_SIZE :: int where "SECTOR_SIZE \<equiv> 256"
abbreviation (input) DISK_NAME_SZ :: nat where "DISK_NAME_SZ \<equiv> 16"
abbreviation (input) FILE_NAME_SZ :: nat where "FILE_NAME_SZ \<equiv> 16"
abbreviation (input) DIRECTORY_TRACK :: int where "DIRECTORY_TRACK \<equiv> 18"
abbreviation (input) DIRECTORY_SECTOR :: int where "DIRECTORY_SECTOR \<equiv> 1"
abbreviation (input) BAM_SECTOR :: int where "BAM_SECTOR \<equiv> 0"
abbreviation (input) FILES_PER_SECTOR :: nat where "FILES_PER_SECTOR \<equiv> 8"
abbreviation (input) D64_DISK35_SZ :: int where "D64_DISK35_SZ \<equiv> 174848"
abbreviation (input) D64_DISK40_SZ :: int where "D64_DISK40_SZ \<equiv> 196608"
abbreviation (input) SIDE_SECTOR_CHAIN_SZ :: nat where "SIDE_SECTOR_CHAIN_SZ \<equiv> 120"
abbreviation (input) A0_VALUE :: u8 where "A0_VALUE \<equiv> 0xA0"
abbreviation (input) DOS_VERSION :: u8 where "DOS_VERSION \<equiv> 0x41"
abbreviation (input) DOS_TYPE :: u8 where "DOS_TYPE \<equiv> 0x32"

text \<open>
  The state of a \<open>d64\<close> object. \<open>INTERLEAVE\<close> (a class constant) and the initial
  contents of \<open>lastSectorUsed\<close> are declared in the class header \<open>d64.h\<close>, which is
  not among the sources; both are parameters of the model. \<open>lastSectorUsed\<close> is
  indexed by \<open>track - 1\<close>.
\<close>

record d64 =
  data :: "int \<Rightarrow> u8"
  disktype :: diskType
  lastSectorUsed :: "int \<Rightarrow> int"
  INTERLEAVE :: int

text \<open>\<open>TRACKS\<close> and \<open>data.size()\<close> are fixed by \<open>init_disk\<close> from the disk type.\<close>

fun TRACKS_of :: "diskType \<Rightarrow> int" where
  "TRACKS_of thirty_five_track = TRACKS_35"
| "TRACKS_of forty_track = TRACKS_40"

fun size_of :: "diskType \<Rightarrow> int" where
  "size_of thirty_five_track = D64_DISK35_SZ"
| "size_of forty_track = D64_DISK40_SZ"

definition TRACKS :: "d64 \<Rightarrow> int" where
  "TRACKS d = TRACKS_of (disktype d)"

definition data_size :: "d64 \<Rightarrow> int" where
  "data_size d = size_of (disktype d)"

subsection \<open>Geometry\<close>

text \<open>
  Modelled from the spec: the tables \<open>SECTORS_PER_TRACK\<close> and \<open>TRACK_OFFSETS\<close> are
  members declared in \<open>d64.h\<close>, which is not among the sources. The spec fixes a
  per-track sector count and a per-track base offset with 256-byte sectors and image
  sizes of 174848 and 196608 bytes; the unit tests read 40 entries of
  \<open>SECTORS_PER_TRACK\<close> and bound a track by 21 sectors. The tables below are the
  1541 geometry, the one that fits these sizes.
\<close>

definition SECTORS_PER_TRACK :: "int list" where
  "SECTORS_PER_TRACK =
    [21, 21, 21, 21, 21, 21, 21, 21, 21, 21, 21, 21, 21, 21, 21, 21, 21,
     19, 19, 19, 19, 19, 19, 19,
     18, 18, 18, 18, 18, 18,
     17, 17, 17, 17, 17,
     17, 17, 17, 17, 17]"

definition TRACK_OFFSETS :: "int list" where
  "TRACK_OFFSETS =
    [0, 5376, 10752, 16128, 21504, 26880, 32256, 37632, 43008, 48384, 53760, 59136,
     64512, 69888, 75264, 80640, 86016,
     91392, 96256, 101120, 105984, 110848, 115712, 120576,
     125440, 130048, 134656, 139264, 143872, 148480,
     153088, 157440, 161792, 166144, 170496,
     174848, 179200, 183552, 187904, 192256]"

text \<open>\<open>d64::calcOffset\<close>: \<open>-1\<close> for an address it rejects. A sector number equal to
  the track's sector count passes the test (it is compared with \<open>>\<close>).\<close>

definition calcOffset :: "d64 \<Rightarrow> int \<Rightarrow> int \<Rightarrow> int" where
  "calcOffset d track sector =
    (if track < 1 \<or> track > TRACKS d \<or> sector < 0
        \<or> sector > SECTORS_PER_TRACK ! nat (track - 1)
     then - 1
     else TRACK_OFFSETS ! nat (track - 1) + sector * SECTOR_SIZE)"

text \<open>
  Modelled from the spec: the accessors \<open>getSectorPtr\<close>, \<open>getTrackSectorPtr\<close> and
  \<open>getSideSectorPtr\<close> are inline members of \<open>d64.h\<close>, which is not among the
  sources. They are taken to be what \<open>getDirectory_SectorPtr\<close> (in d64.cpp) is: a
  cast of \<open>&data[calcOffset(track, sector)]\<close>. The pointer is the offset; forming it
  for a sector that does not lie inside the image is the fault.
\<close>

definition sectorPtr :: "d64 \<Rightarrow> int \<Rightarrow> int \<Rightarrow> int res" where
  "sectorPtr d track sector =
    (let index = calcOffset d track sector
     in if index < 0 \<or> index + SECTOR_SIZE > data_size d then Fault else Ret index)"

definition getDirectory_SectorPtr :: "d64 \<Rightarrow> int \<Rightarrow> int \<Rightarrow> int res" where
  "getDirectory_SectorPtr = sectorPtr"

definition getSectorPtr :: "d64 \<Rightarrow> int \<Rightarrow> int \<Rightarrow> int res" where
  "getSectorPtr = sectorPtr"

definition getTrackSectorPtr :: "d64 \<Rightarrow> int \<Rightarrow> int \<Rightarrow> int res" where
  "getTrackSectorPtr = sectorPtr"

definition getSideSectorPtr :: "d64 \<Rightarrow> int \<Rightarrow> int \<Rightarrow> int res" where
  "getSideSectorPtr = sectorPtr"

text \<open>\<open>getBAMPtr\<close>: the BAM is sector 0 of the directory track.\<close>

definition getBAMPtr :: "d64 \<Rightarrow> int" where
  "getBAMPtr d = calcOffset d DIRECTORY_TRACK BAM_SECTOR"

subsection \<open>Writing bytes\<close>

text \<open>A loop that stores consecutive bytes (\<open>std::copy_n\<close>, \<open>std::fill_n\<close>,
  \<open>memset\<close>, the payload loops).\<close>

fun write_bytes :: "(int \<Rightarrow> u8) \<Rightarrow> int \<Rightarrow> u8 list \<Rightarrow> (int \<Rightarrow> u8)" where
  "write_bytes m a [] = m"
| "write_bytes m a (b # bs) = write_bytes (m(a := b)) (a + 1) bs"

definition poke :: "d64 \<Rightarrow> int \<Rightarrow> u8 \<Rightarrow> d64" where
  "poke d a b = d\<lparr>data := (data d)(a := b)\<rparr>"

definition poke_bytes :: "d64 \<Rightarrow> int \<Rightarrow> u8 list \<Rightarrow> d64" where
  "poke_bytes d a bs = d\<lparr>data := write_bytes (data d) a bs\<rparr>"

definition memset0 :: "d64 \<Rightarrow> int \<Rightarrow> nat \<Rightarrow> d64" where
  "memset0 d a n = poke_bytes d a (replicate n 0)"

subsection \<open>The block availability map\<close>

text \<open>
  Modelled from the spec: \<open>bamtrack(t)\<close> is an inline member of \<open>d64.h\<close>, which is
  not among the sources. It yields the BAM entry of track \<open>t + 1\<close>: four bytes, the
  free count and three bitmap bytes (bit set = free). The first 35 entries are
  \<open>bamTrack[t]\<close> at \<open>$04\<close> of the BAM sector (d64_types.h); for tracks 36 to 40
  d64_types.h says the layout follows Dolphin DOS, which keeps them at \<open>$AC\<close>.
\<close>

definition bamtrack :: "d64 \<Rightarrow> int \<Rightarrow> int" where
  "bamtrack d t =
    (if t < TRACKS_35 then getBAMPtr d + 4 + 4 * t
     else getBAMPtr d + 172 + 4 * (t - TRACKS_35))"

definition bam_free_count :: "d64 \<Rightarrow> int \<Rightarrow> u8" where
  "bam_free_count d t = data d (bamtrack d t)"

definition bam_bytes :: "d64 \<Rightarrow> int \<Rightarrow> int \<Rightarrow> u8" where
  "bam_bytes d t byte = data d (bamtrack d t + 1 + byte)"

text \<open>\<open>d64::allocateSector\<close>. The test for an allocated sector is written with
  \<open>|\<close>, on the operands promoted to \<open>int\<close>. \<open>SECTORS_PER_TRACK\<close> is indexed by
  \<open>track\<close>, not \<open>track - 1\<close>; with 40 entries, index 40 is outside the table.\<close>

definition allocateSector :: "d64 \<Rightarrow> int \<Rightarrow> int \<Rightarrow> (bool \<times> d64) res" where
  "allocateSector d track sector =
    (if track < 1 \<or> track > TRACKS d \<or> sector < 0 then Ret (False, d)
     else if nat track \<ge> length SECTORS_PER_TRACK then Fault
     else if sector > SECTORS_PER_TRACK ! nat track then Ret (False, d)
     else
       let byte = sector div 8;
           bit = sector mod 8;
           val = bam_bytes d (track - 1) byte
       in if (uint val OR push_bit (nat bit) 1) = 0 then Ret (False, d)
          else
            let val' = val AND NOT (push_bit (nat bit) 1);
                d1 = poke d (bamtrack d (track - 1)) (bam_free_count d (track - 1) - 1);
                d2 = poke d1 (bamtrack d1 (track - 1) + 1 + byte) val'
            in Ret (True, d2))"

text \<open>\<open>d64::freeSector\<close>, with the same index into \<open>SECTORS_PER_TRACK\<close>.\<close>

definition freeSector :: "d64 \<Rightarrow> int \<Rightarrow> int \<Rightarrow> (bool \<times> d64) res" where
  "freeSector d track sector =
    (if track < 1 \<or> track > TRACKS d \<or> sector < 0 then Ret (False, d)
     else if nat track \<ge> length SECTORS_PER_TRACK then Fault
     else if sector > SECTORS_PER_TRACK ! nat track then Ret (False, d)
     else if track = DIRECTORY_TRACK \<and> sector = DIRECTORY_SECTOR then Ret (False, d)
     else if track = DIRECTORY_TRACK \<and> sector = BAM_SECTOR then Ret (False, d)
     else
       let byte = sector div 8;
           bit = sector mod 8;
           val = bam_bytes d (track - 1) byte
       in if (uint val AND push_bit (nat bit) 1) \<noteq> 0 then Ret (False, d)
          else
            let d1 = poke d (bamtrack d (track - 1)) (bam_free_count d (track - 1) + 1);
                val' = val OR push_bit (nat bit) 1;
                d2 = poke d1 (bamtrack d1 (track - 1) + 1 + byte) val'
            in Ret (True, d2))"

text \<open>\<open>d64::findAndAllocateFreeOnTrack\<close>. The \<open>for\<close> loop over the sectors of the
  track is \<open>scan_track\<close>; \<open>%\<close> on \<open>int\<close> truncates, and a negative sector
  number would index the bitmap out of range. The result of \<open>allocateSector\<close> is not
  looked at.\<close>

function scan_track :: "d64 \<Rightarrow> int \<Rightarrow> int \<Rightarrow> int \<Rightarrow> (int option \<times> d64) res" where
  "scan_track d track start_sector i =
    (if i < SECTORS_PER_TRACK ! nat (track - 1) then
       let s = (start_sector + i) smod (SECTORS_PER_TRACK ! nat (track - 1))
       in if s < 0 then Fault
          else
            let byte = s div 8;
                bit = s mod 8;
                val = bam_bytes d (track - 1) byte
            in if (uint val AND push_bit (nat bit) 1) \<noteq> 0 then
                 (case allocateSector d track s of
                    Fault \<Rightarrow> Fault
                  | Ret r \<Rightarrow>
                      Ret (Some s, (snd r)\<lparr>lastSectorUsed := (lastSectorUsed (snd r))(track - 1 := s)\<rparr>))
               else scan_track d track start_sector (i + 1)
     else Ret (None, d))"
  by pat_completeness auto
termination
  by (relation "measure (\<lambda>(d, track, start, i). nat (SECTORS_PER_TRACK ! nat (track - 1) - i))") auto

declare scan_track.simps [simp del]

definition findAndAllocateFreeOnTrack :: "d64 \<Rightarrow> int \<Rightarrow> (int option \<times> d64) res" where
  "findAndAllocateFreeOnTrack d track =
    (if uint (bam_free_count d (track - 1)) < 1 then Ret (None, d)
     else
       let start_sector =
             (lastSectorUsed d (track - 1) + INTERLEAVE d) smod (SECTORS_PER_TRACK ! nat (track - 1))
       in scan_track d track start_sector 0)"

definition TRACK_SEARCH_ORDER :: "int list" where
  "TRACK_SEARCH_ORDER =
    [18, 17, 19, 16, 20, 15, 21, 14, 22, 13, 23, 12, 24, 11, 25, 10, 26, 9,
     27, 8, 28, 7, 29, 6, 30, 5, 31, 4, 32, 3, 33, 2, 34, 1, 35]"

definition TRACK_40_SEARCH_ORDER :: "int list" where
  "TRACK_40_SEARCH_ORDER =
    [18, 17, 19, 16, 20, 15, 21, 14, 22, 13, 23, 12, 24, 11, 25, 10, 26, 9,
     27, 8, 28, 7, 29, 6, 30, 5, 31, 4, 32, 3, 33, 2, 34, 1, 35, 36, 37, 38, 39, 40]"

text \<open>The loop over a search order: the first track that yields a sector wins.\<close>

fun search_tracks :: "d64 \<Rightarrow> int list \<Rightarrow> ((int \<times> int) option \<times> d64) res" where
  "search_tracks d [] = Ret (None, d)"
| "search_tracks d (t # ts) =
    (case findAndAllocateFreeOnTrack d t of
       Fault \<Rightarrow> Fault
     | Ret (Some s, d') \<Rightarrow> Ret (Some (t, s), d')
     | Ret (None, d') \<Rightarrow> search_tracks d' ts)"

text \<open>\<open>d64::findAndAllocateFreeSector\<close>. The order is chosen by comparing the
  \<open>disktype\<close> enumerator with the constant \<open>TRACKS_35\<close>.\<close>

definition search_order :: "d64 \<Rightarrow> int list" where
  "search_order d =
    (if diskType_val (disktype d) = TRACKS_35 then TRACK_SEARCH_ORDER
     else TRACK_40_SEARCH_ORDER)"

definition findAndAllocateFreeSector :: "d64 \<Rightarrow> ((int \<times> int) option \<times> d64) res" where
  "findAndAllocateFreeSector d = search_tracks d (search_order d)"

subsection \<open>Formatting\<close>

text \<open>Copying a name into a 16-byte field: \<open>copy_n\<close> of at most 16 bytes, then
  \<open>fill\<close> with \<open>0xA0\<close> up to the end of the field.\<close>

definition write_name :: "d64 \<Rightarrow> int \<Rightarrow> u8 list \<Rightarrow> d64" where
  "write_name d a name =
    (let len = min (length name) FILE_NAME_SZ;
         d1 = poke_bytes d a (take len name)
     in poke_bytes d1 (a + int len) (replicate (FILE_NAME_SZ - len) A0_VALUE))"

text \<open>\<open>d64::initializeBAMFields\<close>, through \<open>bamPtr\<close> (offsets of \<open>struct bam\<close>).\<close>

definition initializeBAMFields :: "d64 \<Rightarrow> u8 list \<Rightarrow> d64" where
  "initializeBAMFields d name =
    (let p = getBAMPtr d;
         d1 = poke d p (word_of_int DIRECTORY_TRACK);
         d2 = poke d1 (p + 1) (word_of_int DIRECTORY_SECTOR);
         d3 = poke d2 (p + 2) DOS_VERSION;
         d4 = poke d3 (p + 3) 0;
         d5 = write_name d4 (p + 144) name;
         d6 = poke_bytes d5 (p + 160) [A0_VALUE, A0_VALUE];
         d7 = poke_bytes d6 (p + 162) [A0_VALUE, A0_VALUE];
         d8 = poke d7 (p + 164) A0_VALUE;
         d9 = poke_bytes d8 (p + 165) [DOS_TYPE, DOS_VERSION];
         d10 = poke_bytes d9 (p + 167) (replicate 5 0)
     in poke_bytes d10 (p + 172) (replicate 84 0))"

text \<open>The body of the loop of \<open>initBAM\<close> over the tracks, and the loop.\<close>

definition initBAM_track :: "d64 \<Rightarrow> int \<Rightarrow> d64" where
  "initBAM_track d t =
    (let d1 = poke d (bamtrack d t) (word_of_int (SECTORS_PER_TRACK ! nat t));
         d2 = poke d1 (bamtrack d1 t + 1) 0xFF;
         d3 = poke d2 (bamtrack d2 t + 2) 0xFF;
         bits = (SECTORS_PER_TRACK ! nat t) mod 8;
         val = fold (\<lambda>b v. v OR push_bit b (1::int)) [0..<nat bits] 0
     in poke d3 (bamtrack d3 t + 3) (word_of_int val))"

definition initBAM :: "d64 \<Rightarrow> u8 list \<Rightarrow> d64 res" where
  "initBAM d name =
    (let d1 = initializeBAMFields d name;
         d2 = fold (\<lambda>t d. initBAM_track d (int t)) [0..<nat (TRACKS d1)] d1;
         index = calcOffset d2 DIRECTORY_TRACK DIRECTORY_SECTOR;
         d3 = poke_bytes d2 index (replicate (nat SECTOR_SIZE) 0);
         d4 = poke d3 (index + 1) 0xFF
     in case allocateSector d4 DIRECTORY_TRACK BAM_SECTOR of
          Fault \<Rightarrow> Fault
        | Ret r \<Rightarrow>
            (case allocateSector (snd r) DIRECTORY_TRACK DIRECTORY_SECTOR of
               Fault \<Rightarrow> Fault
             | Ret r' \<Rightarrow> Ret (snd r')))"

text \<open>\<open>d64::formatDisk\<close>: the image is filled with \<open>0x01\<close>, then the BAM is set up.\<close>

definition formatDisk :: "d64 \<Rightarrow> u8 list \<Rightarrow> d64 res" where
  "formatDisk d name =
    initBAM (d\<lparr>data := (\<lambda>a. if 0 \<le> a \<and> a < data_size d then 1 else data d a)\<rparr>) name"

text \<open>\<open>d64::init_disk\<close> for a new object: \<open>data.resize(sz, 0x01)\<close> and
  \<open>formatDisk("NEW DISK")\<close>. The interleave and the initial \<open>lastSectorUsed\<close> are
  the parameters named above.\<close>

definition NEW_DISK :: "u8 list" where
  "NEW_DISK = [0x4E, 0x45, 0x57, 0x20, 0x44, 0x49, 0x53, 0x4B]"

definition init_disk :: "diskType \<Rightarrow> int \<Rightarrow> (int \<Rightarrow> int) \<Rightarrow> d64 res" where
  "init_disk ty il lsu =
    formatDisk \<lparr>data = (\<lambda>a. 1), disktype = ty, lastSectorUsed = lsu, INTERLEAVE = il\<rparr> NEW_DISK"

subsection \<open>Loops that follow sector chains\<close>

text \<open>
  A \<open>while\<close> loop whose end depends on the bytes of the image is the iteration of its
  body. The body either goes on with a new loop state, leaves the function with a value,
  touches memory outside the image, or contains a loop that does not end. The loop as a
  whole may not end: then \<open>iterate\<close> is \<open>None\<close>.
\<close>

datatype ('s, 'r) loop = Continue 's | Return 'r | Abort | Diverge

partial_function (option) iterate :: "('s \<Rightarrow> ('s, 'r) loop) \<Rightarrow> 's \<Rightarrow> 'r res option" where
  "iterate step s =
    (case step s of
       Continue s' \<Rightarrow> iterate step s'
     | Return r \<Rightarrow> Some (Ret r)
     | Abort \<Rightarrow> Some Fault
     | Diverge \<Rightarrow> None)"

subsection \<open>Directory sectors and entries\<close>

text \<open>
  Offsets of the packed structs (d64_types.h). A directory sector is \<open>next\<close> (2 bytes)
  and 8 entries of 32 bytes: type byte, start track and sector, 16 name bytes, side
  track and sector, record length, 4 unused bytes, replace track and sector, 2 size
  bytes, 2 padding bytes. The type byte is a bit field: type in bits 0 to 3, closed in
  bit 7.
\<close>

abbreviation (input) DIR_ENTRY_SIZEOF :: nat where "DIR_ENTRY_SIZEOF \<equiv> 32"

definition entry_ptr :: "int \<Rightarrow> nat \<Rightarrow> int" where
  "entry_ptr p i = p + 2 + 32 * int i"

definition dir_entries :: "int \<Rightarrow> int list" where
  "dir_entries p = map (entry_ptr p) [0..<FILES_PER_SECTOR]"

definition closed :: "d64 \<Rightarrow> int \<Rightarrow> bool" where
  "closed d e = (data d e AND 0x80 \<noteq> 0)"

definition entry_type :: "d64 \<Rightarrow> int \<Rightarrow> u8" where
  "entry_type d e = data d e AND 0x0F"

definition next_track :: "d64 \<Rightarrow> int \<Rightarrow> int" where
  "next_track d p = uint (data d p)"

definition next_sector :: "d64 \<Rightarrow> int \<Rightarrow> int" where
  "next_sector d p = uint (data d (p + 1))"

definition entry_name :: "d64 \<Rightarrow> int \<Rightarrow> u8 list" where
  "entry_name d e = map (\<lambda>i. data d (e + 3 + int i)) [0..<FILE_NAME_SZ]"

text \<open>The conversion \<open>FileType(FileTypes t)\<close>: closed, not locked, type \<open>t\<close>.\<close>

definition FileType_of :: "d64FileTypes \<Rightarrow> u8" where
  "FileType_of t = 0x80 OR FileTypes_val t"

text \<open>\<open>d64::findEmptyDirectorySlot\<close>. The loop state is the image with
  \<open>dir_track\<close> and \<open>dir_sector\<close>. When the chain ends, a sector is allocated into
  the local variables \<open>dir_track\<close> and \<open>dir_sector\<close>; the sector that is cleared is
  the one \<open>dirSectorPtr->next\<close> names.\<close>

definition findEmptyDirectorySlot_step ::
    "d64 \<times> int \<times> int \<Rightarrow> (d64 \<times> int \<times> int, int option \<times> d64) loop" where
  "findEmptyDirectorySlot_step st =
    (case st of (d, dir_track, dir_sector) \<Rightarrow>
      if dir_track = 0 then Return (None, d)
      else
        (case getDirectory_SectorPtr d dir_track dir_sector of
          Fault \<Rightarrow> Abort
        | Ret p \<Rightarrow>
            (case find (\<lambda>e. \<not> closed d e) (dir_entries p) of
               Some e \<Rightarrow> Return (Some e, d)
             | None \<Rightarrow>
                 let nt = next_track d p; ns = next_sector d p
                 in if nt > 0 \<and> nt \<le> TRACKS d \<and> ns \<ge> 0
                       \<and> ns < SECTORS_PER_TRACK ! nat (nt - 1)
                    then Continue (d, nt, ns)
                    else
                      (case findAndAllocateFreeSector d of
                         Fault \<Rightarrow> Abort
                       | Ret (None, d') \<Rightarrow> Return (None, d')
                       | Ret (Some ts, d') \<Rightarrow>
                           (case getDirectory_SectorPtr d' (next_track d' p) (next_sector d' p) of
                              Fault \<Rightarrow> Abort
                            | Ret p' \<Rightarrow>
                                let d1 = memset0 d' p' (nat SECTOR_SIZE);
                                    d2 = poke d1 p' 0;
                                    d3 = poke d2 (p' + 1) 0xFF
                                in Continue (d3, fst ts, snd ts))))))"

definition findEmptyDirectorySlot :: "d64 \<Rightarrow> (int option \<times> d64) res option" where
  "findEmptyDirectorySlot d =
    iterate findEmptyDirectorySlot_step (d, DIRECTORY_TRACK, DIRECTORY_SECTOR)"

text \<open>\<open>d64::findFile\<close>. The stored name is cut at its first \<open>0xA0\<close>
  (\<open>erase(find_if(begin, end, c == 0xA0), end)\<close>) and compared with the query.\<close>

definition name_matches :: "d64 \<Rightarrow> u8 list \<Rightarrow> int \<Rightarrow> bool" where
  "name_matches d filename e =
    (takeWhile (\<lambda>c. c \<noteq> A0_VALUE) (entry_name d e) = filename)"

definition findFile_step :: "d64 \<Rightarrow> u8 list \<Rightarrow> int \<times> int \<Rightarrow> (int \<times> int, int option) loop" where
  "findFile_step d filename st =
    (case st of (dir_track, dir_sector) \<Rightarrow>
      if dir_track = 0 then Return None
      else
        (case getDirectory_SectorPtr d dir_track dir_sector of
          Fault \<Rightarrow> Abort
        | Ret p \<Rightarrow>
            (case find (\<lambda>e. closed d e \<and> name_matches d filename e) (dir_entries p) of
               Some e \<Rightarrow> Return (Some e)
             | None \<Rightarrow> Continue (next_track d p, next_sector d p))))"

definition findFile :: "d64 \<Rightarrow> u8 list \<Rightarrow> int option res option" where
  "findFile d filename = iterate (findFile_step d filename) (DIRECTORY_TRACK, DIRECTORY_SECTOR)"

subsection \<open>Sequential files\<close>

text \<open>The 254 payload bytes of the sector written at \<open>offset\<close>:
  \<open>(offset < sz) ? fileData[offset++] : 0\<close> for each of them.\<close>

definition sector_payload :: "u8 list \<Rightarrow> nat \<Rightarrow> u8 list" where
  "sector_payload fileData offset =
    map (\<lambda>b. if offset + b < length fileData then fileData ! (offset + b) else 0) [0..<254]"

definition write_sector :: "d64 \<Rightarrow> int \<Rightarrow> int \<Rightarrow> int \<Rightarrow> u8 list \<Rightarrow> d64" where
  "write_sector d p nt ns payload =
    (let d1 = poke d p (word_of_int nt);
         d2 = poke d1 (p + 1) (word_of_int ns)
     in poke_bytes d2 (p + 2) payload)"

text \<open>The first half of the loop body of \<open>addFile\<close>: another sector is allocated when
  more than 254 bytes remain, else the link is \<open>(0, remaining bytes)\<close>. \<open>None\<close> is the
  \<open>return false\<close> of a full disk.\<close>

definition addFile_next ::
    "d64 \<Rightarrow> u8 list \<Rightarrow> nat \<Rightarrow> int \<Rightarrow> ((int \<times> int \<times> int) option \<times> d64) res" where
  "addFile_next d fileData offset allocated =
    (if length fileData - offset > 254 then
       (case findAndAllocateFreeSector d of
          Fault \<Rightarrow> Fault
        | Ret (None, d') \<Rightarrow> Ret (None, d')
        | Ret (Some ts, d') \<Rightarrow> Ret (Some (fst ts, snd ts, allocated + 1), d'))
     else Ret (Some (0, int (length fileData) - int offset, allocated), d))"

function addFile_loop ::
    "d64 \<Rightarrow> u8 list \<Rightarrow> nat \<Rightarrow> int \<Rightarrow> int \<Rightarrow> int \<Rightarrow> (int option \<times> d64) res" where
  "addFile_loop d fileData offset track sector allocated =
    (if offset < length fileData then
       (case addFile_next d fileData offset allocated of
          Fault \<Rightarrow> Fault
        | Ret (None, d') \<Rightarrow> Ret (None, d')
        | Ret (Some nx, d') \<Rightarrow>
            (case getSectorPtr d' track sector of
               Fault \<Rightarrow> Fault
             | Ret p \<Rightarrow>
                 addFile_loop
                   (write_sector d' p (fst nx) (fst (snd nx)) (sector_payload fileData offset))
                   fileData (min (length fileData) (offset + 254))
                   (fst nx) (fst (snd nx)) (snd (snd nx))))
     else Ret (Some allocated, d))"
  by pat_completeness auto
termination
  by (relation "measure (\<lambda>(d, fileData, offset, t, s, a). length fileData - offset)") auto

declare addFile_loop.simps [simp del]

text \<open>The directory entry that \<open>addFile\<close> fills in. The padding bytes are not
  written.\<close>

definition write_file_entry :: "d64 \<Rightarrow> int \<Rightarrow> u8 \<Rightarrow> int \<Rightarrow> int \<Rightarrow> u8 list \<Rightarrow> int \<Rightarrow> d64" where
  "write_file_entry d e type start_track start_sector filename allocated =
    (let d1 = poke d e type;
         d2 = poke d1 (e + 1) (word_of_int start_track);
         d3 = poke d2 (e + 2) (word_of_int start_sector);
         d4 = write_name d3 (e + 3) filename;
         d5 = poke d4 (e + 19) 0;
         d6 = poke d5 (e + 20) 0;
         d7 = poke d6 (e + 21) 0;
         d8 = poke_bytes d7 (e + 22) (replicate 4 0);
         d9 = poke d8 (e + 26) (data d8 (e + 1));
         d10 = poke d9 (e + 27) (data d9 (e + 2));
         d11 = poke d10 (e + 28) (word_of_int (allocated AND 0xFF))
     in poke d11 (e + 29) (word_of_int (drop_bit 8 (allocated AND 0xFF00))))"

text \<open>\<open>d64::addFile\<close>; \<open>type\<close> is the type byte of the entry.\<close>

definition addFile :: "d64 \<Rightarrow> u8 list \<Rightarrow> u8 \<Rightarrow> u8 list \<Rightarrow> (bool \<times> d64) res option" where
  "addFile d filename type fileData =
    (case findAndAllocateFreeSector d of
       Fault \<Rightarrow> Some Fault
     | Ret (None, d1) \<Rightarrow> Some (Ret (False, d1))
     | Ret (Some start, d1) \<Rightarrow>
         (case addFile_loop d1 fileData 0 (fst start) (snd start) 1 of
            Fault \<Rightarrow> Some Fault
          | Ret (None, d2) \<Rightarrow> Some (Ret (False, d2))
          | Ret (Some allocated, d2) \<Rightarrow>
              (case findEmptyDirectorySlot d2 of
                 None \<Rightarrow> None
               | Some Fault \<Rightarrow> Some Fault
               | Some (Ret (None, d3)) \<Rightarrow> Some (Ret (False, d3))
               | Some (Ret (Some e, d3)) \<Rightarrow>
                   Some (Ret (True,
                     write_file_entry d3 e type (fst start) (snd start) filename allocated)))))"

text \<open>\<open>d64::readPRGFile\<close>. The loop state is \<open>track\<close>, \<open>sector\<close> and the bytes read
  so far. The payload array has 254 elements.\<close>

definition readPRGFile_step ::
    "d64 \<Rightarrow> int \<times> int \<times> u8 list \<Rightarrow> (int \<times> int \<times> u8 list, u8 list option) loop" where
  "readPRGFile_step d st =
    (case st of (track, sector, fileData) \<Rightarrow>
      if track = 0 then Return (Some fileData)
      else
        (case sectorPtr d track sector of
          Fault \<Rightarrow> Abort
        | Ret p \<Rightarrow>
            let bytes = (if next_track d p \<noteq> 0 then 254 else next_sector d p)
            in if bytes > 254 then Abort
               else Continue (next_track d p, next_sector d p,
                      fileData @ map (\<lambda>b. data d (p + 2 + int b)) [0..<nat bytes])))"

definition readPRGFile :: "d64 \<Rightarrow> int \<Rightarrow> u8 list option res option" where
  "readPRGFile d fileEntry =
    iterate (readPRGFile_step d)
      (uint (data d (fileEntry + 1)), uint (data d (fileEntry + 2)), [])"

subsection \<open>Relative files\<close>

text \<open>
  A side sector (d64_types.h): \<open>next\<close> at 0, \<open>block\<close> at 2, \<open>recordsize\<close> at 3,
  six sibling addresses \<open>side_sectors\<close> at 4, 120 data sector addresses \<open>chain\<close>
  at 16.
\<close>

definition chain_track :: "d64 \<Rightarrow> int \<Rightarrow> nat \<Rightarrow> u8" where
  "chain_track d side i = data d (side + 16 + 2 * int i)"

definition chain_sector :: "d64 \<Rightarrow> int \<Rightarrow> nat \<Rightarrow> u8" where
  "chain_sector d side i = data d (side + 17 + 2 * int i)"

text \<open>\<open>fileEntry->file_type.closed = 0\<close>.\<close>

definition clear_closed :: "d64 \<Rightarrow> int \<Rightarrow> d64" where
  "clear_closed d e = poke d e (data d e AND 0x7F)"

text \<open>The update of the sibling lists when the last byte has been written: every side
  sector of the list receives the first \<open>side_count\<close> entries of the first one.\<close>

definition copy_sibling :: "int \<Rightarrow> int \<Rightarrow> d64 \<Rightarrow> nat \<Rightarrow> d64" where
  "copy_sibling first_side ss d i =
    (let d1 = poke d (ss + 4 + 2 * int i) (data d (first_side + 4 + 2 * int i))
     in poke d1 (ss + 5 + 2 * int i) (data d1 (first_side + 5 + 2 * int i)))"

definition update_side_sector_list :: "d64 \<Rightarrow> int \<Rightarrow> int list \<Rightarrow> nat \<Rightarrow> d64" where
  "update_side_sector_list d first_side side_sector_list side_count =
    fold (\<lambda>ss d. fold (\<lambda>i d. copy_sibling first_side ss d i) [0..<side_count] d)
      side_sector_list d"

text \<open>The body of the loop over the chain of a side sector, for a free place \<open>i\<close>:
  a data sector is allocated, entered in the chain, linked from the data sector before
  it, and filled with the next 254 bytes of the file. \<open>Inl\<close> is a \<open>return\<close> out of
  \<open>addRelFile\<close>; \<open>Inr\<close> carries the image, \<open>done\<close>, \<open>file_pos\<close> and
  \<open>allocated_sectors\<close>.\<close>

definition addRel_place ::
    "int \<Rightarrow> int \<Rightarrow> int \<Rightarrow> int list \<Rightarrow> nat \<Rightarrow> u8 list \<Rightarrow> nat \<Rightarrow> d64 \<Rightarrow> nat \<Rightarrow> int
      \<Rightarrow> ((bool \<times> d64) + (d64 \<times> bool \<times> nat \<times> int)) res" where
  "addRel_place e first_side side side_sector_list side_count fileData i d file_pos allocated =
    (case findAndAllocateFreeSector d of
       Fault \<Rightarrow> Fault
     | Ret (None, d') \<Rightarrow> Ret (Inl (False, clear_closed d' e))
     | Ret (Some ts, d') \<Rightarrow>
         let d1 = poke d' (side + 16 + 2 * int i) (word_of_int (fst ts));
             d2 = poke d1 (side + 17 + 2 * int i) (word_of_int (snd ts))
         in (case (if i > 0 then
                    (case getTrackSectorPtr d2 (uint (chain_track d2 side (i - 1)))
                            (uint (chain_sector d2 side (i - 1))) of
                       Fault \<Rightarrow> Fault
                     | Ret nextptr \<Rightarrow>
                         Ret (poke (poke d2 nextptr (word_of_int (fst ts)))
                                (nextptr + 1) (word_of_int (snd ts))))
                  else Ret d2) of
              Fault \<Rightarrow> Fault
            | Ret d3 \<Rightarrow>
                (case getSectorPtr d3 (fst ts) (snd ts) of
                   Fault \<Rightarrow> Fault
                 | Ret sp \<Rightarrow>
                     let d4 = write_sector d3 sp 0 0 (sector_payload fileData file_pos);
                         done = (file_pos + 254 > length fileData);
                         file_pos' = min (length fileData) (file_pos + 254);
                         allocated' = allocated + 1
                     in if done then
                          let d5 = poke d4 (e + 28) (word_of_int (allocated' AND 0xFF));
                              d6 = poke d5 (e + 29) (word_of_int (drop_bit 8 (allocated' AND 0xFF00)))
                          in Ret (Inr (update_side_sector_list d6 first_side side_sector_list side_count,
                                       done, file_pos', allocated'))
                        else Ret (Inr (d4, done, file_pos', allocated')))))"

function addRel_chain ::
    "int \<Rightarrow> int \<Rightarrow> int \<Rightarrow> int list \<Rightarrow> nat \<Rightarrow> u8 list \<Rightarrow> nat \<Rightarrow> d64 \<Rightarrow> bool \<Rightarrow> nat \<Rightarrow> int
      \<Rightarrow> ((bool \<times> d64) + (d64 \<times> bool \<times> nat \<times> int)) res" where
  "addRel_chain e first_side side side_sector_list side_count fileData i d done file_pos allocated =
    (if \<not> done \<and> i < SIDE_SECTOR_CHAIN_SZ then
       (if chain_track d side i = 0 \<and> chain_sector d side i = 0 then
          (case addRel_place e first_side side side_sector_list side_count fileData i d
                  file_pos allocated of
             Fault \<Rightarrow> Fault
           | Ret (Inl r) \<Rightarrow> Ret (Inl r)
           | Ret (Inr st) \<Rightarrow>
               addRel_chain e first_side side side_sector_list side_count fileData (i + 1)
                 (fst st) (fst (snd st)) (fst (snd (snd st))) (snd (snd (snd st))))
        else addRel_chain e first_side side side_sector_list side_count fileData (i + 1)
               d done file_pos allocated)
     else Ret (Inr (d, done, file_pos, allocated)))"
  by pat_completeness auto
termination
  by (relation "measure (\<lambda>(e, fs, sd, l, c, fd, i, r). SIDE_SECTOR_CHAIN_SZ - i)") auto

declare addRel_chain.simps [simp del]

text \<open>The main loop of \<open>addRelFile\<close>. Its state: the image, \<open>sideTrack\<close>,
  \<open>sideSector\<close>, \<open>block\<close>, \<open>file_pos\<close>, \<open>allocated_sectors\<close> and
  \<open>side_sector_list\<close>. \<open>done\<close> is false at the head of the loop. No statement of
  the function changes \<open>side_count\<close>.\<close>

abbreviation (input) MAX_SIDE_SECTORS :: nat where "MAX_SIDE_SECTORS \<equiv> 6"

definition addRel_main_step ::
    "int \<Rightarrow> int \<Rightarrow> u8 list \<Rightarrow> u8 \<Rightarrow> nat
      \<Rightarrow> d64 \<times> int \<times> int \<times> u8 \<times> nat \<times> int \<times> int list
      \<Rightarrow> (d64 \<times> int \<times> int \<times> u8 \<times> nat \<times> int \<times> int list, bool \<times> d64) loop" where
  "addRel_main_step e first_side fileData record_size side_count st =
    (case st of (d, sideTrack, sideSector, block, file_pos, allocated, side_sector_list) \<Rightarrow>
      if \<not> side_count < MAX_SIDE_SECTORS then Return (True, d)
      else
        (case getSideSectorPtr d sideTrack sideSector of
           Fault \<Rightarrow> Abort
         | Ret side \<Rightarrow>
             let d1 = memset0 d side (nat SECTOR_SIZE);
                 side_sector_list' = side_sector_list @ [side];
                 d2 = poke d1 (first_side + 4 + 2 * int side_count) (word_of_int sideTrack);
                 d3 = poke d2 (first_side + 4 + 2 * int side_count) (word_of_int sideTrack);
                 d4 = poke d3 side 0;
                 d5 = poke d4 (side + 1) 0;
                 d6 = poke d5 (side + 3) record_size;
                 d7 = poke d6 (side + 2) block
             in (case addRel_chain e first_side side side_sector_list' side_count fileData 0
                       d7 False file_pos allocated of
                  Fault \<Rightarrow> Abort
                | Ret (Inl r) \<Rightarrow> Return r
                | Ret (Inr c) \<Rightarrow>
                    if fst (snd c) then Return (True, fst c)
                    else
                      (case findAndAllocateFreeSector (fst c) of
                         Fault \<Rightarrow> Abort
                       | Ret (None, d9) \<Rightarrow> Return (False, clear_closed d9 e)
                       | Ret (Some ts, d9) \<Rightarrow>
                           Continue
                             (poke (poke d9 side (word_of_int (fst ts)))
                                (side + 1) (word_of_int (snd ts)),
                              fst ts, snd ts, block + 1, fst (snd (snd c)),
                              snd (snd (snd c)) + 1, side_sector_list')))))"

text \<open>\<open>d64::addRelFile\<close>. The parameter \<open>type\<close> is not used: the entry is given the
  type \<open>REL\<close>. \<open>sizeof(Directory_Entry)\<close> bytes of the entry are cleared.\<close>

definition addRelFile ::
    "d64 \<Rightarrow> u8 list \<Rightarrow> u8 \<Rightarrow> u8 \<Rightarrow> u8 list \<Rightarrow> (bool \<times> d64) res option" where
  "addRelFile d filename type record_size fileData =
    (case findEmptyDirectorySlot d of
       None \<Rightarrow> None
     | Some Fault \<Rightarrow> Some Fault
     | Some (Ret (None, d0)) \<Rightarrow> Some (Ret (False, d0))
     | Some (Ret (Some e, d0)) \<Rightarrow>
         if e < 0 \<or> e + int DIR_ENTRY_SIZEOF > data_size d0 then Some Fault
         else
           let d1 = memset0 d0 e DIR_ENTRY_SIZEOF;
               d2 = poke d1 e (FileType_of REL);
               d3 = write_name d2 (e + 3) filename;
               d4 = poke d3 (e + 21) record_size
           in (case findAndAllocateFreeSector d4 of
                Fault \<Rightarrow> Some Fault
              | Ret (None, d5) \<Rightarrow> Some (Ret (False, clear_closed d5 e))
              | Ret (Some ts, d5) \<Rightarrow>
                  (case getSideSectorPtr d5 (fst ts) (snd ts) of
                     Fault \<Rightarrow> Some Fault
                   | Ret first_side \<Rightarrow>
                       let d6 = poke d5 (e + 19) (word_of_int (fst ts));
                           d7 = poke d6 (e + 20) (word_of_int (snd ts));
                           d8 = poke d7 (e + 1) (word_of_int (fst ts));
                           d9 = poke d8 (e + 2) (word_of_int (snd ts))
                       in iterate (addRel_main_step e first_side fileData record_size 0)
                            (d9, fst ts, snd ts, 0, 0, 1, []))))"

text \<open>\<open>d64::parseSideSectors\<close>: the chain entries of a side sector up to the first
  one with track 0, then the next side sector.\<close>

function chain_entries :: "d64 \<Rightarrow> int \<Rightarrow> nat \<Rightarrow> (int \<times> int) list \<Rightarrow> (int \<times> int) list" where
  "chain_entries d side i recordMap =
    (if i < SIDE_SECTOR_CHAIN_SZ then
       (if chain_track d side i = 0 then recordMap
        else chain_entries d side (i + 1)
               (recordMap @ [(uint (chain_track d side i), uint (chain_sector d side i))]))
     else recordMap)"
  by pat_completeness auto
termination
  by (relation "measure (\<lambda>(d, side, i, m). SIDE_SECTOR_CHAIN_SZ - i)") auto

declare chain_entries.simps [simp del]

definition parseSideSectors_step ::
    "d64 \<Rightarrow> int \<times> int \<times> (int \<times> int) list
      \<Rightarrow> (int \<times> int \<times> (int \<times> int) list, (int \<times> int) list) loop" where
  "parseSideSectors_step d st =
    (case st of (sideTrack, sideSector, recordMap) \<Rightarrow>
      if sideTrack = 0 then Return recordMap
      else
        (case getSideSectorPtr d sideTrack sideSector of
           Fault \<Rightarrow> Abort
         | Ret p \<Rightarrow> Continue (next_track d p, next_sector d p, chain_entries d p 0 recordMap)))"

definition parseSideSectors :: "d64 \<Rightarrow> int \<Rightarrow> int \<Rightarrow> (int \<times> int) list res option" where
  "parseSideSectors d sideTrack sideSector =
    iterate (parseSideSectors_step d) (sideTrack, sideSector, [])"

text \<open>The loop of \<open>readRELFile\<close> over the record map: \<open>recordLength\<close> bytes of the
  payload of each data sector.\<close>

fun read_records :: "d64 \<Rightarrow> int \<Rightarrow> (int \<times> int) list \<Rightarrow> u8 list \<Rightarrow> u8 list res" where
  "read_records d recordLength [] fileData = Ret fileData"
| "read_records d recordLength (rec # recs) fileData =
    (case getSectorPtr d (fst rec) (snd rec) of
       Fault \<Rightarrow> Fault
     | Ret p \<Rightarrow>
         if recordLength > 254 then Fault
         else read_records d recordLength recs
                (fileData @ map (\<lambda>b. data d (p + 2 + int b)) [0..<nat recordLength]))"

definition readRELFile :: "d64 \<Rightarrow> int \<Rightarrow> u8 list option res option" where
  "readRELFile d fileEntry =
    (if entry_type d fileEntry \<noteq> FileTypes_val REL then Some (Ret None)
     else
       let sideTrack = uint (data d (fileEntry + 19));
           sideSector = uint (data d (fileEntry + 20));
           recordLength = uint (data d (fileEntry + 21))
       in if recordLength = 0 then Some (Ret None)
          else
            (case parseSideSectors d sideTrack sideSector of
               None \<Rightarrow> None
             | Some Fault \<Rightarrow> Some Fault
             | Some (Ret recordMap) \<Rightarrow>
                 (case read_records d recordLength recordMap [] of
                    Fault \<Rightarrow> Some Fault
                  | Ret fileData \<Rightarrow> Some (Ret (Some fileData)))))"

text \<open>\<open>d64::readFile\<close>.\<close>

definition readFile :: "d64 \<Rightarrow> u8 list \<Rightarrow> u8 list option res option" where
  "readFile d filename =
    (case findFile d filename of
       None \<Rightarrow> None
     | Some Fault \<Rightarrow> Some Fault
     | Some (Ret None) \<Rightarrow> Some (Ret None)
     | Some (Ret (Some fileEntry)) \<Rightarrow>
         if entry_type d fileEntry = FileTypes_val REL then readRELFile d fileEntry
         else readPRGFile d fileEntry)"

subsection \<open>Removing and renaming\<close>

text \<open>\<open>d64::removeFile\<close>: the loop follows the link in the first two bytes of each
  sector, from the start address of the entry, and frees the sectors; the result of
  \<open>freeSector\<close> is not looked at. Then \<open>sizeof(Directory_Entry)\<close> bytes are
  cleared.\<close>

definition removeFile_step :: "d64 \<times> int \<times> int \<Rightarrow> (d64 \<times> int \<times> int, d64) loop" where
  "removeFile_step st =
    (case st of (d, track, sector) \<Rightarrow>
      if track = 0 then Return d
      else
        (case getTrackSectorPtr d track sector of
           Fault \<Rightarrow> Abort
         | Ret p \<Rightarrow>
             let nt = next_track d p; ns = next_sector d p
             in (case freeSector d track sector of
                   Fault \<Rightarrow> Abort
                 | Ret r \<Rightarrow> Continue (snd r, nt, ns))))"

definition removeFile :: "d64 \<Rightarrow> u8 list \<Rightarrow> (bool \<times> d64) res option" where
  "removeFile d filename =
    (case findFile d filename of
       None \<Rightarrow> None
     | Some Fault \<Rightarrow> Some Fault
     | Some (Ret None) \<Rightarrow> Some (Ret (False, d))
     | Some (Ret (Some e)) \<Rightarrow>
         (case iterate removeFile_step (d, uint (data d (e + 1)), uint (data d (e + 2))) of
            None \<Rightarrow> None
          | Some Fault \<Rightarrow> Some Fault
          | Some (Ret d') \<Rightarrow>
              if e < 0 \<or> e + int DIR_ENTRY_SIZEOF > data_size d' then Some Fault
              else Some (Ret (True, memset0 d' e DIR_ENTRY_SIZEOF))))"

text \<open>\<open>d64::renameFile\<close>.\<close>

definition renameFile :: "d64 \<Rightarrow> u8 list \<Rightarrow> u8 list \<Rightarrow> (bool \<times> d64) res option" where
  "renameFile d oldfilename newfilename =
    (case findFile d oldfilename of
       None \<Rightarrow> None
     | Some Fault \<Rightarrow> Some Fault
     | Some (Ret None) \<Rightarrow> Some (Ret (False, d))
     | Some (Ret (Some e)) \<Rightarrow> Some (Ret (True, write_name d (e + 3) newfilename)))"

subsection \<open>The BAM verifier\<close>

text \<open>\<open>sectorUsage\<close> is an array of 40 rows of 21 flags, indexed by
  \<open>track - 1\<close> and the sector.\<close>

type_synonym usage = "int \<times> int \<Rightarrow> bool"

definition mark_used :: "usage \<Rightarrow> int \<Rightarrow> int \<Rightarrow> usage res" where
  "mark_used U t s =
    (if t < 0 \<or> t \<ge> TRACKS_40 \<or> s < 0 \<or> s \<ge> 21 then Fault else Ret (U((t, s) := True)))"

text \<open>\<open>d64::readByte\<close>: the test is made on the sum of \<open>calcOffset\<close> and the byte
  offset.\<close>

definition readByte :: "d64 \<Rightarrow> int \<Rightarrow> int \<Rightarrow> int \<Rightarrow> u8 option" where
  "readByte d track sector byteoffset =
    (let offset = calcOffset d track sector + byteoffset
     in if offset \<ge> 0 \<and> offset < data_size d then Some (data d offset) else None)"

text \<open>Modelled from the spec: the constant \<open>SECTOR_SECTOR\<close> is not declared in the
  sources at hand; \<open>TRACK_SECTOR\<close> is 0 and a chain link is the track byte followed by
  the sector byte, so it is 1.\<close>

abbreviation (input) TRACK_SECTOR :: int where "TRACK_SECTOR \<equiv> 0"
abbreviation (input) SECTOR_SECTOR :: int where "SECTOR_SECTOR \<equiv> 1"

text \<open>Step 2 of \<open>verifyBAMIntegrity\<close>: the chain of one live entry, the entries of
  one directory sector, the chain of directory sectors.\<close>

definition walk_step :: "d64 \<Rightarrow> int \<times> int \<times> usage \<Rightarrow> (int \<times> int \<times> usage, usage) loop" where
  "walk_step d st =
    (case st of (track, sector, U) \<Rightarrow>
      if track = 0 then Return U
      else
        (case mark_used U (track - 1) sector of
           Fault \<Rightarrow> Abort
         | Ret U' \<Rightarrow>
             Continue
               (case readByte d track sector TRACK_SECTOR of None \<Rightarrow> 0 | Some b \<Rightarrow> uint b,
                case readByte d track sector SECTOR_SECTOR of None \<Rightarrow> 0xFF | Some b \<Rightarrow> uint b,
                U')))"

fun scan_entries :: "d64 \<Rightarrow> int list \<Rightarrow> usage \<Rightarrow> usage res option" where
  "scan_entries d [] U = Some (Ret U)"
| "scan_entries d (e # es) U =
    (if \<not> closed d e then scan_entries d es U
     else
       (case iterate (walk_step d) (uint (data d (e + 1)), uint (data d (e + 2)), U) of
          None \<Rightarrow> None
        | Some Fault \<Rightarrow> Some Fault
        | Some (Ret U') \<Rightarrow> scan_entries d es U'))"

definition scan_dir_step :: "d64 \<Rightarrow> int \<times> int \<times> usage \<Rightarrow> (int \<times> int \<times> usage, usage) loop" where
  "scan_dir_step d st =
    (case st of (dir_track, dir_sector, U) \<Rightarrow>
      if dir_track = 0 then Return U
      else
        (case getDirectory_SectorPtr d dir_track dir_sector of
           Fault \<Rightarrow> Abort
         | Ret p \<Rightarrow>
             (case mark_used U (dir_track - 1) dir_sector of
                Fault \<Rightarrow> Abort
              | Ret U1 \<Rightarrow>
                  (case scan_entries d (dir_entries p) U1 of
                     None \<Rightarrow> Diverge
                   | Some Fault \<Rightarrow> Abort
                   | Some (Ret U2) \<Rightarrow> Continue (next_track d p, next_sector d p, U2)))))"

definition scan_usage :: "d64 \<Rightarrow> usage res option" where
  "scan_usage d =
    iterate (scan_dir_step d)
      (DIRECTORY_TRACK, DIRECTORY_SECTOR, (\<lambda>_. False)((DIRECTORY_TRACK - 1, BAM_SECTOR) := True))"

text \<open>The lines written to the log: the two kinds of \<open>ERROR\<close> and the \<open>WARNING\<close>
  report a discrepancy, the \<open>FIXING\<close> lines a repair. Each carries the numbers that
  the line prints.\<close>

datatype log_line =
    ERROR_marked_used int int
  | FIXING_freeing int int
  | ERROR_marked_free int int
  | FIXING_marking_used int int
  | WARNING_count_mismatch int int int
  | FIXING_count int

fun is_discrepancy :: "log_line \<Rightarrow> bool" where
  "is_discrepancy (ERROR_marked_used s t) = True"
| "is_discrepancy (ERROR_marked_free s t) = True"
| "is_discrepancy (WARNING_count_mismatch t f c) = True"
| "is_discrepancy _ = False"

text \<open>Step 3: the body of the loop over the sectors of a track. The state is the
  image, the log, \<open>errorsFound\<close> and \<open>correctFreeCount\<close>.\<close>

definition check_sector ::
    "bool \<Rightarrow> usage \<Rightarrow> int \<Rightarrow> int \<Rightarrow> d64 \<times> log_line list \<times> bool \<times> int
      \<Rightarrow> d64 \<times> log_line list \<times> bool \<times> int" where
  "check_sector fix U track sector st =
    (case st of (d, log, errorsFound, correctFreeCount) \<Rightarrow>
      let byteIndex = sector div 8;
          bitMask = push_bit (nat (sector mod 8)) (1::int);
          a = bamtrack d (track - 1) + 1 + byteIndex;
          isFreeInBAM = (uint (data d a) AND bitMask \<noteq> 0);
          isUsedInDirectory = U (track - 1, sector);
          st1 =
            (if \<not> isUsedInDirectory \<and> \<not> isFreeInBAM then
               (if fix then poke d a (data d a OR word_of_int bitMask) else d,
                log @ [ERROR_marked_used sector track]
                    @ (if fix then [FIXING_freeing sector track] else []),
                True)
             else if isUsedInDirectory \<and> isFreeInBAM then
               (if fix then poke d a (data d a AND word_of_int (NOT bitMask)) else d,
                log @ [ERROR_marked_free sector track]
                    @ (if fix then [FIXING_marking_used sector track] else []),
                True)
             else (d, log, errorsFound))
      in (fst st1, fst (snd st1), snd (snd st1),
          if \<not> isUsedInDirectory then correctFreeCount + 1 else correctFreeCount))"

text \<open>The body of the loop over the tracks: the sectors, then the free count.\<close>

definition check_track ::
    "bool \<Rightarrow> usage \<Rightarrow> int \<Rightarrow> d64 \<times> log_line list \<times> bool \<Rightarrow> d64 \<times> log_line list \<times> bool" where
  "check_track fix U track st =
    (case st of (d, log, errorsFound) \<Rightarrow>
      (case fold (check_sector fix U track) [0..SECTORS_PER_TRACK ! nat (track - 1) - 1]
              (d, log, errorsFound, 0) of
         (d1, log1, errorsFound1, correctFreeCount) \<Rightarrow>
           let free = uint (bam_free_count d1 (track - 1))
           in if free \<noteq> correctFreeCount then
                (if fix then poke d1 (bamtrack d1 (track - 1)) (word_of_int correctFreeCount)
                 else d1,
                 log1 @ [WARNING_count_mismatch track free correctFreeCount]
                      @ (if fix then [FIXING_count track] else []),
                 True)
              else (d1, log1, errorsFound1)))"

text \<open>\<open>d64::verifyBAMIntegrity\<close>: whether the BAM is valid, the log, and the image
  (changed when \<open>fix\<close> is set).\<close>

definition verifyBAMIntegrity :: "d64 \<Rightarrow> bool \<Rightarrow> (bool \<times> log_line list \<times> d64) res option" where
  "verifyBAMIntegrity d fix =
    (case scan_usage d of
       None \<Rightarrow> None
     | Some Fault \<Rightarrow> Some Fault
     | Some (Ret U) \<Rightarrow>
         (case fold (check_track fix U) [1..TRACKS d] (d, [], False) of
            (d', log, errorsFound) \<Rightarrow> Some (Ret (\<not> errorsFound, log, d'))))"

subsection \<open>Single bytes\<close>

text \<open>\<open>d64::writeByte\<close>, with the same test as \<open>readByte\<close>.\<close>

definition writeByte :: "d64 \<Rightarrow> int \<Rightarrow> int \<Rightarrow> int \<Rightarrow> u8 \<Rightarrow> bool \<times> d64" where
  "writeByte d track sector byteoffset val =
    (let offset = calcOffset d track sector + byteoffset
     in if offset \<ge> 0 \<and> offset < data_size d then (True, poke d offset val) else (False, d))"

section \<open>Notions used in the statements\<close>

text \<open>The BAM bit of a sector, as \<open>findAndAllocateFreeOnTrack\<close> and \<open>freeSector\<close>
  test it: set means free.\<close>

definition bam_free :: "d64 \<Rightarrow> int \<Rightarrow> int \<Rightarrow> bool" where
  "bam_free d track sector =
    (uint (bam_bytes d (track - 1) (sector div 8)) AND push_bit (nat (sector mod 8)) 1 \<noteq> 0)"

text \<open>The four bytes that the loop of \<open>initBAM\<close> stores for the track with index
  \<open>t\<close>, and the index of the track whose BAM entry holds the byte at an offset.\<close>

definition bam_init :: "int \<Rightarrow> u8 list" where
  "bam_init t =
    [word_of_int (SECTORS_PER_TRACK ! nat t), 0xFF, 0xFF,
     word_of_int (fold (\<lambda>b v. v OR push_bit b (1::int))
       [0..<nat ((SECTORS_PER_TRACK ! nat t) mod 8)] 0)]"

definition track_of_addr :: "int \<Rightarrow> int" where
  "track_of_addr a =
    (if 91396 \<le> a \<and> a < 91536 then (a - 91396) div 4
     else if 91564 \<le> a \<and> a < 91584 then 35 + (a - 91564) div 4 else - 1)"

text \<open>The image that \<open>formatDisk\<close> leaves, as the sequence of its stores: the fill
  with \<open>0x01\<close>, the BAM header, the BAM entries, the empty directory sector, and the
  two allocations on the directory track.\<close>

definition fresh :: "d64 \<Rightarrow> u8 list \<Rightarrow> d64" where
  "fresh d name =
    (let d0 = d\<lparr>data := (\<lambda>a. if 0 \<le> a \<and> a < data_size d then 1 else data d a)\<rparr>;
         d1 = initializeBAMFields d0 name;
         d2 = fold (\<lambda>t d. initBAM_track d (int t)) [0..<nat (TRACKS d)] d1;
         d3 = poke_bytes d2 91648 (replicate 256 0);
         d4 = poke d3 91649 0xFF;
         d5 = poke d4 91464 18;
         d6 = poke d5 91465 0xFE;
         d7 = poke d6 91464 17
     in poke d7 91465 0xFC)"

text \<open>A new 35-track disk, for an interleave of 10 and a \<open>lastSectorUsed\<close> table of
  zeros.\<close>

definition new_disk35 :: "d64 res" where
  "new_disk35 = init_disk thirty_five_track 10 (\<lambda>_. 0)"

text \<open>Two images are related by \<open>bam_only\<close> when they differ at most inside the BAM
  sector (offsets 91392 to 91647).\<close>

definition bam_only :: "d64 \<Rightarrow> d64 \<Rightarrow> bool" where
  "bam_only d d' \<longleftrightarrow>
     disktype d' = disktype d \<and> INTERLEAVE d' = INTERLEAVE d
     \<and> (\<forall>a. \<not> (91392 \<le> a \<and> a < 91648) \<longrightarrow> data d' a = data d a)"

text \<open>The eight entries of the first directory sector made live: the type byte of
  each is set to a closed PRG entry with \<open>writeByte\<close>.\<close>

definition mark_entries_live :: "d64 \<Rightarrow> d64" where
  "mark_entries_live d =
    fold (\<lambda>i d. snd (writeByte d DIRECTORY_TRACK DIRECTORY_SECTOR (2 + 32 * int i)
                       (FileType_of PRG))) [0..<FILES_PER_SECTOR] d"

text \<open>\<open>n\<close> calls of \<open>findAndAllocateFreeSector\<close> in a row, as the allocation test
  of the repository makes them; the addresses returned, in order.\<close>

fun allocate_n :: "nat \<Rightarrow> d64 \<Rightarrow> ((int \<times> int) list \<times> d64) res" where
  "allocate_n 0 d = Ret ([], d)"
| "allocate_n (Suc n) d =
    (case findAndAllocateFreeSector d of
       Fault \<Rightarrow> Fault
     | Ret (None, d') \<Rightarrow> Ret ([], d')
     | Ret (Some ts, d') \<Rightarrow>
         (case allocate_n n d' of
            Fault \<Rightarrow> Fault
          | Ret r \<Rightarrow> Ret (ts # fst r, snd r)))"





section \<open>Basic facts\<close>

lemma smod_nonneg: "0 \<le> (a::int) \<Longrightarrow> 0 < b \<Longrightarrow> a smod b = a mod b"
  by (simp add: smod_int_alt_def sgn_if)

lemma TRACKS_cases: "TRACKS d = 35 \<or> TRACKS d = 40"
  by (cases "disktype d") (simp_all add: TRACKS_def)

lemma getBAMPtr_eq [simp]: "getBAMPtr d = 91392"
  using TRACKS_cases[of d]
  by (auto simp add: getBAMPtr_def calcOffset_def TRACK_OFFSETS_def SECTORS_PER_TRACK_def)

lemma poke_sel [simp]:
  "data (poke d a b) = (data d)(a := b)"
  "disktype (poke d a b) = disktype d"
  "lastSectorUsed (poke d a b) = lastSectorUsed d"
  "INTERLEAVE (poke d a b) = INTERLEAVE d"
  by (simp_all add: poke_def)

lemma poke_bytes_sel [simp]:
  "data (poke_bytes d a bs) = write_bytes (data d) a bs"
  "disktype (poke_bytes d a bs) = disktype d"
  "lastSectorUsed (poke_bytes d a bs) = lastSectorUsed d"
  "INTERLEAVE (poke_bytes d a bs) = INTERLEAVE d"
  by (simp_all add: poke_bytes_def)

lemma write_bytes_apply:
  "write_bytes m a bs x =
    (if a \<le> x \<and> x < a + int (length bs) then bs ! nat (x - a) else m x)"
proof (induction bs arbitrary: m a)
  case Nil
  then show ?case by (cases "a \<le> x") auto
next
  case (Cons b bs)
  have "write_bytes m a (b # bs) x = write_bytes (m(a := b)) (a + 1) bs x"
    by simp
  also have "\<dots> = (if a + 1 \<le> x \<and> x < a + 1 + int (length bs)
                    then bs ! nat (x - (a + 1)) else (m(a := b)) x)"
    by (rule Cons)
  also have "\<dots> = (if a \<le> x \<and> x < a + int (length (b # bs))
                    then (b # bs) ! nat (x - a) else m x)"
  proof (cases "x = a")
    case True
    then show ?thesis by simp
  next
    case False
    have "a < x \<Longrightarrow> nat (x - a) = Suc (nat (x - (a + 1)))"
      by simp
    with False show ?thesis by auto
  qed
  finally show ?case .
qed

lemma write_bytes_replicate:
  "write_bytes m a (replicate n b) x = (if a \<le> x \<and> x < a + int n then b else m x)"
  by (auto simp add: write_bytes_apply)

lemma TRACKS_sel [simp]:
  "TRACKS (poke d a b) = TRACKS d"
  "TRACKS (poke_bytes d a bs) = TRACKS d"
  "TRACKS (d\<lparr>data := m\<rparr>) = TRACKS d"
  "TRACKS (d\<lparr>lastSectorUsed := l\<rparr>) = TRACKS d"
  "data_size (poke d a b) = data_size d"
  "data_size (poke_bytes d a bs) = data_size d"
  "data_size (d\<lparr>data := m\<rparr>) = data_size d"
  "data_size (d\<lparr>lastSectorUsed := l\<rparr>) = data_size d"
  by (simp_all add: TRACKS_def data_size_def)

lemma bamtrack_eq: "bamtrack d t = (if t < 35 then 91396 + 4 * t else 91564 + 4 * (t - 35))"
  by (simp add: bamtrack_def)

lemma write_name_sel [simp]:
  "disktype (write_name d a n) = disktype d"
  "lastSectorUsed (write_name d a n) = lastSectorUsed d"
  "INTERLEAVE (write_name d a n) = INTERLEAVE d"
  "TRACKS (write_name d a n) = TRACKS d"
  "data_size (write_name d a n) = data_size d"
  by (simp_all add: write_name_def Let_def)

lemma memset0_sel [simp]:
  "disktype (memset0 d a n) = disktype d"
  "lastSectorUsed (memset0 d a n) = lastSectorUsed d"
  "INTERLEAVE (memset0 d a n) = INTERLEAVE d"
  "TRACKS (memset0 d a n) = TRACKS d"
  "data_size (memset0 d a n) = data_size d"
  by (simp_all add: memset0_def)

subsection \<open>The formatted disk\<close>

lemma initBAM_track_eq: "initBAM_track d t = poke_bytes d (bamtrack d t) (bam_init t)"
  by (simp add: initBAM_track_def bam_init_def Let_def poke_def poke_bytes_def bamtrack_eq)

lemma track_of_addr_iff:
  "0 \<le> n \<Longrightarrow> n < 40 \<Longrightarrow>
    (bamtrack d n \<le> a \<and> a < bamtrack d n + 4) = (track_of_addr a = n)"
  unfolding bamtrack_eq track_of_addr_def by (auto; presburger)

lemma initBAM_tracks_sel [simp]:
  "disktype (fold (\<lambda>t d. initBAM_track d (int t)) ts d) = disktype d"
  "lastSectorUsed (fold (\<lambda>t d. initBAM_track d (int t)) ts d) = lastSectorUsed d"
  "INTERLEAVE (fold (\<lambda>t d. initBAM_track d (int t)) ts d) = INTERLEAVE d"
  by (induction ts arbitrary: d; simp add: initBAM_track_eq)+

lemma initBAM_tracks_data:
  "n \<le> 40 \<Longrightarrow>
   data (fold (\<lambda>t d. initBAM_track d (int t)) [0..<n] d) a =
    (if 0 \<le> track_of_addr a \<and> track_of_addr a < int n
     then bam_init (track_of_addr a) ! nat (a - bamtrack d (track_of_addr a))
     else data d a)"
proof (induction n)
  case 0
  then show ?case by (cases "0 \<le> track_of_addr a") auto
next
  case (Suc n)
  let ?F = "fold (\<lambda>t d. initBAM_track d (int t))"
  have b: "bamtrack (?F [0..<n] d) (int n) = bamtrack d (int n)"
    by (simp add: bamtrack_eq)
  have l: "length (bam_init (int n)) = 4"
    by (simp add: bam_init_def)
  have "data (?F [0..<Suc n] d) a = data (initBAM_track (?F [0..<n] d) (int n)) a"
    by simp
  also have "\<dots> = write_bytes (data (?F [0..<n] d)) (bamtrack d (int n)) (bam_init (int n)) a"
    by (simp add: initBAM_track_eq bamtrack_eq)
  also have "\<dots> = (if track_of_addr a = int n
                    then bam_init (int n) ! nat (a - bamtrack d (int n))
                    else data (?F [0..<n] d) a)"
    using track_of_addr_iff[of "int n" d a] Suc.prems
    by (simp add: write_bytes_apply l)
  also have "\<dots> = (if 0 \<le> track_of_addr a \<and> track_of_addr a < int (Suc n)
                    then bam_init (track_of_addr a) ! nat (a - bamtrack d (track_of_addr a))
                    else data d a)"
    using Suc by auto
  finally show ?case .
qed

lemma initializeBAMFields_sel [simp]:
  "disktype (initializeBAMFields d name) = disktype d"
  "lastSectorUsed (initializeBAMFields d name) = lastSectorUsed d"
  "INTERLEAVE (initializeBAMFields d name) = INTERLEAVE d"
  by (simp_all add: initializeBAMFields_def Let_def)

lemma fresh_sel [simp]:
  "disktype (fresh d name) = disktype d"
  "lastSectorUsed (fresh d name) = lastSectorUsed d"
  "INTERLEAVE (fresh d name) = INTERLEAVE d"
  "TRACKS (fresh d name) = TRACKS d"
  "data_size (fresh d name) = data_size d"
  by (simp_all add: fresh_def Let_def TRACKS_def data_size_def)

lemma bam_init_17: "bam_init 17 = [19, 0xFF, 0xFF, 7]"
  by (simp add: bam_init_def SECTORS_PER_TRACK_def upt_conv_Cons)

lemma formatDisk_eq: "formatDisk d name = Ret (fresh d name)"
proof -
  have n: "nat (TRACKS d) \<le> 40" "17 < TRACKS d"
    using TRACKS_cases[of d] by auto
  have t: "track_of_addr 91464 = 17" "track_of_addr 91465 = 17"
    by (simp_all add: track_of_addr_def)
  show ?thesis
    using n
    by (simp add: formatDisk_def initBAM_def fresh_def Let_def allocateSector_def
        calcOffset_def TRACK_OFFSETS_def SECTORS_PER_TRACK_def bam_bytes_def bam_free_count_def
        bamtrack_eq write_bytes_apply initBAM_tracks_data t bam_init_17 TRACKS_def
        data_size_def)
qed

lemma data_fresh:
  "data (fresh d name) a =
    (if a = 91465 then 0xFC
     else if a = 91464 then 17
     else if a = 91649 then 0xFF
     else if 91648 \<le> a \<and> a < 91904 then 0
     else if 0 \<le> track_of_addr a \<and> track_of_addr a < TRACKS d
       then bam_init (track_of_addr a) ! nat (a - bamtrack d (track_of_addr a))
     else data (initializeBAMFields
            (d\<lparr>data := (\<lambda>a. if 0 \<le> a \<and> a < data_size d then 1 else data d a)\<rparr>) name) a)"
proof -
  have n: "nat (TRACKS d) \<le> 40" "0 \<le> TRACKS d"
    using TRACKS_cases[of d] by auto
  show ?thesis
    using n by (simp add: fresh_def Let_def write_bytes_replicate initBAM_tracks_data bamtrack_eq)
qed

lemma new_disk35_eq:
  "new_disk35 =
    Ret (fresh \<lparr>data = (\<lambda>a. 1), disktype = thirty_five_track,
                 lastSectorUsed = (\<lambda>_. 0), INTERLEAVE = 10\<rparr> NEW_DISK)"
  by (simp add: new_disk35_def init_disk_def formatDisk_eq)

lemma sector_payload_length [simp]: "length (sector_payload fileData offset) = 254"
  by (simp add: sector_payload_def)

lemma sector_payload_nth:
  "b < 254 \<Longrightarrow>
    sector_payload fileData offset ! b =
      (if offset + b < length fileData then fileData ! (offset + b) else 0)"
  by (simp add: sector_payload_def)

text \<open>The facts that evaluate the model on explicit images.\<close>

lemmas ev =
  write_bytes_apply Let_def upt_conv_Cons TRACKS_def data_size_def bamtrack_eq
  bam_free_count_def bam_bytes_def calcOffset_def SECTORS_PER_TRACK_def TRACK_OFFSETS_def
  write_name_def memset0_def data_fresh track_of_addr_def bam_init_def
  initializeBAMFields_def NEW_DISK_def bam_free_def sector_payload_nth write_bytes_replicate

lemmas ev_alloc =
  findAndAllocateFreeSector_def search_order_def TRACK_40_SEARCH_ORDER_def
  TRACK_SEARCH_ORDER_def findAndAllocateFreeOnTrack_def allocateSector_def freeSector_def
  smod_nonneg scan_track.simps

lemmas ev_dir =
  iterate.simps findEmptyDirectorySlot_def findEmptyDirectorySlot_step_def
  getDirectory_SectorPtr_def sectorPtr_def getSectorPtr_def getTrackSectorPtr_def
  getSideSectorPtr_def dir_entries_def entry_ptr_def closed_def entry_type_def next_track_def
  next_sector_def entry_name_def FileType_of_def name_matches_def findFile_def findFile_step_def

lemmas ev_rel =
  addRelFile_def addRel_main_step_def addRel_chain.simps addRel_place_def chain_track_def
  chain_sector_def clear_closed_def update_side_sector_list_def copy_sibling_def
  write_sector_def readFile_def readRELFile_def readPRGFile_def readPRGFile_step_def
  parseSideSectors_def parseSideSectors_step_def chain_entries.simps removeFile_def
  removeFile_step_def

section \<open>Loops and the directory walk\<close>







lemma data_write_name:
  "data (write_name d a name) x =
    (if a \<le> x \<and> x < a + 16
     then (take 16 name @ replicate (16 - length name) A0_VALUE) ! nat (x - a)
     else data d x)"
proof (cases "a \<le> x \<and> x < a + 16")
  case False
  then show ?thesis
    by (auto simp add: write_name_def Let_def write_bytes_apply)
next
  case True
  define i where "i = nat (x - a)"
  have x: "x = a + int i" "i < 16"
    using True by (auto simp add: i_def)
  show ?thesis
  proof (cases "i < length name")
    case True
    with x show ?thesis
      by (auto simp add: write_name_def Let_def write_bytes_apply nth_append min_def)
  next
    case False
    with x show ?thesis
      by (auto simp add: write_name_def Let_def write_bytes_apply nth_append min_def)
  qed
qed

lemma entry_name_write_name:
  "entry_name (write_name d (e + 3) name) e = take 16 name @ replicate (16 - length name) A0_VALUE"
  by (rule nth_equalityI) (auto simp add: entry_name_def data_write_name)

text \<open>A program file of three bytes under the name \<open>A\<close> on a new 35-track disk: the
  entry is the first of the directory, the data sector track 18 sector 10.\<close>

lemmas ev_seq =
  addFile_def addFile_loop.simps addFile_next_def write_file_entry_def write_sector_def
  readFile_def readPRGFile_def readPRGFile_step_def readRELFile_def

lemma seq_example:
  "\<exists>d d'. new_disk35 = Ret d
     \<and> addFile d [0x41] (FileType_of PRG) [1, 2, 3] = Some (Ret (True, d'))
     \<and> findFile d' [0x41] = Some (Ret (Some 91650))
     \<and> findFile d' [0x42] = Some (Ret None)"
  by (simp add: new_disk35_eq ev ev_alloc ev_dir ev_seq)

section \<open>The allocator changes the BAM sector only\<close>

lemma bam_only_refl [simp]: "bam_only d d"
  by (simp add: bam_only_def)

lemma bam_only_trans: "bam_only d d' \<Longrightarrow> bam_only d' d'' \<Longrightarrow> bam_only d d''"
  by (simp add: bam_only_def)

lemma bam_only_lsu [simp]: "bam_only d (d'\<lparr>lastSectorUsed := l\<rparr>) = bam_only d d'"
  by (simp add: bam_only_def)

lemma bam_only_TRACKS: "bam_only d d' \<Longrightarrow> TRACKS d' = TRACKS d"
  by (simp add: bam_only_def TRACKS_def)

lemma bam_only_data_size: "bam_only d d' \<Longrightarrow> data_size d' = data_size d"
  by (simp add: bam_only_def data_size_def)

lemma SPT_length [simp]: "length SECTORS_PER_TRACK = 40"
  by (simp add: SECTORS_PER_TRACK_def)

lemma SPT_bounds: "i < 40 \<Longrightarrow> 17 \<le> SECTORS_PER_TRACK ! i \<and> SECTORS_PER_TRACK ! i \<le> 21"
proof -
  have "\<forall>x \<in> set SECTORS_PER_TRACK. 17 \<le> x \<and> x \<le> 21"
    by (simp add: SECTORS_PER_TRACK_def)
  moreover assume "i < 40"
  ultimately show ?thesis
    using nth_mem[of i SECTORS_PER_TRACK] by simp
qed

lemma allocateSector_frame:
  assumes "allocateSector d t s = Ret (b, d')"
  shows "bam_only d d' \<and> lastSectorUsed d' = lastSectorUsed d"
proof (cases "1 \<le> t \<and> t \<le> TRACKS d \<and> 0 \<le> s \<and> nat t < 40 \<and> s \<le> SECTORS_PER_TRACK ! nat t")
  case False
  with assms show ?thesis
    by (auto simp add: allocateSector_def split: if_splits)
next
  case True
  then have s: "s \<le> 21"
    using SPT_bounds[of "nat t"] by simp
  have "0 \<le> s div 8" "s div 8 \<le> 2"
    using True s by auto
  moreover have "91396 \<le> bamtrack d (t - 1)" "bamtrack d (t - 1) \<le> 91580"
    using True by (auto simp add: bamtrack_eq)
  ultimately show ?thesis
    using assms True
    by (auto simp add: allocateSector_def Let_def bam_only_def bamtrack_eq split: if_splits)
qed

lemma scan_track_frame:
  "scan_track d t start i = Ret (r, d') \<Longrightarrow> bam_only d d'"
proof (induction d t start i rule: scan_track.induct)
  case (1 d track start_sector i)
  show ?case
    using "1.prems" "1.IH" allocateSector_frame
    apply (subst (asm) scan_track.simps)
    apply (auto simp add: Let_def split: if_splits res.splits)
    done
qed

lemma findAndAllocateFreeOnTrack_frame:
  "findAndAllocateFreeOnTrack d t = Ret (r, d') \<Longrightarrow> bam_only d d'"
  by (auto simp add: findAndAllocateFreeOnTrack_def Let_def split: if_splits
      dest: scan_track_frame)

lemma search_tracks_frame:
  "search_tracks d ts = Ret (r, d') \<Longrightarrow> bam_only d d'"
proof (induction ts arbitrary: d)
  case Nil
  then show ?case by simp
next
  case (Cons t ts)
  then show ?case
    by (auto split: res.splits option.splits prod.splits
        dest!: findAndAllocateFreeOnTrack_frame intro: bam_only_trans)
qed

lemma findAndAllocateFreeSector_frame:
  "findAndAllocateFreeSector d = Ret (r, d') \<Longrightarrow> bam_only d d'"
  by (simp add: findAndAllocateFreeSector_def search_tracks_frame)

lemma dir_ptr: "getDirectory_SectorPtr d 18 1 = Ret 91648"
  using TRACKS_cases[of d]
  by (cases "disktype d")
     (auto simp add: getDirectory_SectorPtr_def sectorPtr_def calcOffset_def
        TRACK_OFFSETS_def SECTORS_PER_TRACK_def data_size_def TRACKS_def)

lemma allocate_n_unfold:
  "allocate_n n d =
    (if n = 0 then Ret ([], d)
     else (case findAndAllocateFreeSector d of
       Fault \<Rightarrow> Fault
     | Ret (None, d') \<Rightarrow> Ret ([], d')
     | Ret (Some ts, d') \<Rightarrow>
         (case allocate_n (n - 1) d' of
            Fault \<Rightarrow> Fault
          | Ret r \<Rightarrow> Ret (ts # fst r, snd r))))"
  by (cases n) (auto split: res.splits option.splits prod.splits)

section \<open>Allocating and freeing single sectors\<close>

text \<open>
  Claim C3 says that \<open>allocateSector\<close> returns false for a sector that is already
  allocated and leaves the BAM bit and the free count as they are. The function does
  neither: its test \<open>(val | (1 << bit)) == 0\<close> never holds, so for every address that
  passes its range check, whose track is below 40, it returns true and decrements the free
  count of the track, also when the sector is marked allocated.
\<close>

theorem allocateSector_accepts_allocated_sector:
  assumes "1 \<le> track" and "track \<le> TRACKS d" and "track < 40"
    and "0 \<le> sector" and "sector \<le> SECTORS_PER_TRACK ! nat track"
    and "\<not> bam_free d track sector"
  shows "\<exists>d'. allocateSector d track sector = Ret (True, d')
           \<and> bam_free_count d' (track - 1) = bam_free_count d (track - 1) - 1"
proof -
  have len: "length SECTORS_PER_TRACK = 40"
    by (simp add: SECTORS_PER_TRACK_def)
  have nz: "uint v OR push_bit n (1::int) \<noteq> 0" for v :: u8 and n
    by (simp add: or_eq_0_iff)
  have "0 \<le> sector div 8"
    using assms(4) by simp
  then have ne: "bamtrack d (track - 1) + 1 + sector div 8 \<noteq> bamtrack d (track - 1)"
    by simp
  show ?thesis
    using assms len nz ne
    by (simp add: allocateSector_def Let_def bam_free_count_def bamtrack_def)
qed

theorem allocateSector_accepts_allocated_sector_witness:
  "\<exists>d. new_disk35 = Ret d \<and> \<not> bam_free d 18 0 \<and> bam_free_count d 17 = 17
     \<and> (\<exists>d'. allocateSector d 18 0 = Ret (True, d') \<and> bam_free_count d' 17 = 16)"
proof -
  let ?d = "fresh \<lparr>data = (\<lambda>a. 1), disktype = thirty_five_track,
                    lastSectorUsed = (\<lambda>_. 0), INTERLEAVE = 10\<rparr> NEW_DISK"
  have a: "\<not> bam_free ?d 18 0"
    by (simp add: ev)
  have f: "bam_free_count ?d 17 = 17"
    by (simp add: ev)
  have "\<exists>d'. allocateSector ?d 18 0 = Ret (True, d')
          \<and> bam_free_count d' (18 - 1) = bam_free_count ?d (18 - 1) - 1"
    by (rule allocateSector_accepts_allocated_sector)
       (simp_all add: a, simp_all add: TRACKS_def SECTORS_PER_TRACK_def)
  with a f show ?thesis
    by (simp add: new_disk35_eq)
qed

section \<open>Growing the directory\<close>

text \<open>
  Claim C4 says that \<open>findEmptyDirectorySlot\<close>, when the directory chain has no free
  entry, allocates a sector, clears it, links it from the last directory sector and
  returns its first entry, and that it fails only when no sector is free. The function
  allocates the sector into its local variables; the link of the last directory sector
  is not written, and the sector it then clears is the one that this link names, track
  0: a pointer to offset \<open>-1\<close>. Whenever the first directory sector is full and ends the
  chain, and a sector is free, the call leaves the image.
\<close>

theorem findEmptyDirectorySlot_full_directory_faults:
  assumes "list_all (closed d) (dir_entries 91648)"
    and "next_track d 91648 = 0"
    and "findAndAllocateFreeSector d = Ret (Some ts, d')"
  shows "findEmptyDirectorySlot d = Some Fault"
proof -
  have f: "find (\<lambda>e. \<not> closed d e) (dir_entries 91648) = None"
    using assms(1) by (simp add: find_None_iff list_all_iff)
  have b: "bam_only d d'"
    using assms(3) by (rule findAndAllocateFreeSector_frame)
  then have n: "next_track d' 91648 = 0"
    using assms(2) by (simp add: bam_only_def next_track_def)
  have p: "getDirectory_SectorPtr d' 0 s = Fault" for s
    by (simp add: getDirectory_SectorPtr_def sectorPtr_def calcOffset_def)
  show ?thesis
    by (simp add: findEmptyDirectorySlot_def iterate.simps findEmptyDirectorySlot_step_def
        dir_ptr f assms(2) assms(3) n p)
qed

theorem findEmptyDirectorySlot_full_directory_faults_witness:
  "\<exists>d d'. new_disk35 = Ret d
     \<and> list_all (closed (mark_entries_live d)) (dir_entries 91648)
     \<and> next_track (mark_entries_live d) 91648 = 0
     \<and> findAndAllocateFreeSector (mark_entries_live d) = Ret (Some (18, 10), d')
     \<and> findEmptyDirectorySlot (mark_entries_live d) = Some Fault"
proof -
  let ?d = "fresh \<lparr>data = (\<lambda>a. 1), disktype = thirty_five_track,
                    lastSectorUsed = (\<lambda>_. 0), INTERLEAVE = 10\<rparr> NEW_DISK"
  have 1: "list_all (closed (mark_entries_live ?d)) (dir_entries 91648)"
    by (simp add: mark_entries_live_def writeByte_def ev ev_dir)
  have 2: "next_track (mark_entries_live ?d) 91648 = 0"
    by (simp add: mark_entries_live_def writeByte_def ev ev_dir)
  have "\<exists>d'. findAndAllocateFreeSector (mark_entries_live ?d) = Ret (Some (18, 10), d')"
    by (simp add: mark_entries_live_def writeByte_def ev ev_dir ev_alloc)
  then obtain d' where 3: "findAndAllocateFreeSector (mark_entries_live ?d) = Ret (Some (18, 10), d')"
    by blast
  from findEmptyDirectorySlot_full_directory_faults [OF 1 2 3] 1 2 3
  show ?thesis
    by (auto simp add: new_disk35_eq)
qed

section \<open>The order of allocation\<close>

text \<open>
  Claim C6 says that tracks 36 to 40 are searched for the 40-track variant only, and that
  the first free sector in scan order is returned and allocated. \<open>disktype\<close> holds an
  enumerator (0 or 1) and is compared with \<open>TRACKS_35\<close> (35), so the 40-track order
  is used for every disk. And \<open>allocateSector\<close> rejects sector 20 of track 17 (it
  compares with the sector count of track 18), a rejection that
  \<open>findAndAllocateFreeOnTrack\<close> does not see: of 19 allocations on a new disk the last
  returns track 17 sector 20, which stays free in the BAM, the free count of the track
  still being 20.
\<close>

theorem findAndAllocateFreeSector_order_and_unallocated_sector:
  "\<exists>d d'. new_disk35 = Ret d
     \<and> TRACKS d = 35
     \<and> search_order d =
         [18, 17, 19, 16, 20, 15, 21, 14, 22, 13, 23, 12, 24, 11, 25, 10, 26, 9,
          27, 8, 28, 7, 29, 6, 30, 5, 31, 4, 32, 3, 33, 2, 34, 1, 35, 36, 37, 38, 39, 40]
     \<and> allocate_n 19 d =
         Ret ([(18, 10), (18, 2), (18, 12), (18, 3), (18, 13), (18, 4), (18, 14), (18, 5),
               (18, 15), (18, 6), (18, 16), (18, 7), (18, 17), (18, 8), (18, 18), (18, 9),
               (18, 11), (17, 10), (17, 20)], d')
     \<and> bam_free d' 17 20 \<and> bam_free_count d' 16 = 20"
  by (simp add: new_disk35_eq ev ev_alloc allocate_n_unfold)

section \<open>Looking a file up by name\<close>



section \<open>Renaming\<close>

text \<open>
  Claim C10: for an entry found under the old name, \<open>renameFile\<close> returns true, the
  16 name bytes of the entry become the first 16 bytes of the new name followed by
  \<open>0xA0\<close> padding, and every other byte of the image (the other fields of the entry
  among them: type and flags at offset 0 of the entry, start address at 1, side address at
  19, record length at 21, replace address at 26, size at 28) is as before, as are the
  other members of the object.
\<close>

theorem renameFile_writes_name_bytes_only:
  assumes "findFile d old = Some (Ret (Some e))"
  shows "\<exists>d'. renameFile d old new = Some (Ret (True, d'))
     \<and> entry_name d' e = take 16 new @ replicate (16 - length new) A0_VALUE
     \<and> (\<forall>a. a < e + 3 \<or> e + 19 \<le> a \<longrightarrow> data d' a = data d a)
     \<and> disktype d' = disktype d \<and> lastSectorUsed d' = lastSectorUsed d
     \<and> INTERLEAVE d' = INTERLEAVE d"
  using assms
  by (auto simp add: renameFile_def entry_name_write_name data_write_name)

theorem renameFile_writes_name_bytes_only_witness:
  "\<exists>d d' d''. new_disk35 = Ret d
     \<and> addFile d [0x41] (FileType_of PRG) [1, 2, 3] = Some (Ret (True, d'))
     \<and> findFile d' [0x41] = Some (Ret (Some 91650))
     \<and> renameFile d' [0x41] [0x42] = Some (Ret (True, d''))
     \<and> entry_name d'' 91650 = 0x42 # replicate 15 A0_VALUE
     \<and> data d'' 91650 = data d' 91650 \<and> data d'' 91651 = data d' 91651"
proof -
  from seq_example obtain d d' where
    n: "new_disk35 = Ret d"
    and a: "addFile d [0x41] (FileType_of PRG) [1, 2, 3] = Some (Ret (True, d'))"
    and f: "findFile d' [0x41] = Some (Ret (Some 91650))"
    by blast
  from renameFile_writes_name_bytes_only[OF f, of "[0x42]"]
  obtain d'' where r: "renameFile d' [0x41] [0x42] = Some (Ret (True, d''))"
    and e: "entry_name d'' 91650 = take 16 [0x42] @ replicate (16 - length [0x42 :: u8]) A0_VALUE"
    and fr: "\<forall>a. a < 91650 + 3 \<or> 91650 + 19 \<le> a \<longrightarrow> data d'' a = data d' a"
    by blast
  from fr have "data d'' 91650 = data d' 91650" "data d'' 91651 = data d' 91651"
    by simp_all
  with n a f r e show ?thesis
    by (intro exI[of _ d] exI[of _ d'] exI[of _ d'']) simp
qed

section \<open>Relative files on a new disk\<close>

text \<open>
  A relative file of two records of two bytes, added to a new 35-track disk under the
  name \<open>R\<close>. The entry goes to the first slot of the directory (offset 91650), the side
  sector to track 18 sector 10 (offset 93952), and the four bytes to one data sector,
  track 18 sector 2.
\<close>

lemma rel_example:
  "\<exists>d d' d''. new_disk35 = Ret d
     \<and> addRelFile d [0x52] (FileType_of REL) 2 [1, 2, 3, 4] = Some (Ret (True, d'))
     \<and> data d' 91651 = 18 \<and> data d' 91652 = 10
     \<and> data d' 93956 = 18 \<and> data d' 93957 = 0
     \<and> parseSideSectors d' 18 10 = Some (Ret [(18, 2)])
     \<and> readFile d' [0x52] = Some (Ret (Some [1, 2]))
     \<and> removeFile d' [0x52] = Some (Ret (True, d''))
     \<and> bam_free d'' 18 10 \<and> \<not> bam_free d'' 18 2"
  by (simp add: new_disk35_eq ev ev_alloc ev_dir ev_rel)

text \<open>
  Claim C2 says that \<open>addRelFile\<close> followed by \<open>readFile\<close> yields the bytes that were
  added. \<open>addRelFile\<close> fills each data sector with 254 bytes of the file, whatever the
  record size, and \<open>readRELFile\<close> takes \<open>record_length\<close> bytes from each data sector:
  of the four bytes added with record size 2, two come back.
\<close>

theorem addRelFile_readFile_loses_bytes:
  "\<exists>d d'. new_disk35 = Ret d
     \<and> addRelFile d [0x52] (FileType_of REL) 2 [1, 2, 3, 4] = Some (Ret (True, d'))
     \<and> readFile d' [0x52] = Some (Ret (Some [1, 2]))"
  using rel_example by blast

text \<open>
  Claim C5 says that \<open>removeFile\<close> frees every sector of the file, data sectors and
  side sectors. \<open>removeFile\<close> follows the links from the start address of the entry,
  which for a relative file is the first side sector: the side sector (18, 10) is freed,
  the data sector (18, 2) that the side sector lists stays allocated.
\<close>

theorem removeFile_keeps_rel_data_sector_allocated:
  "\<exists>d d' d''. new_disk35 = Ret d
     \<and> addRelFile d [0x52] (FileType_of REL) 2 [1, 2, 3, 4] = Some (Ret (True, d'))
     \<and> parseSideSectors d' 18 10 = Some (Ret [(18, 2)])
     \<and> removeFile d' [0x52] = Some (Ret (True, d''))
     \<and> bam_free d'' 18 10 \<and> \<not> bam_free d'' 18 2"
  using rel_example by blast

text \<open>
  Claim C7 says that every side sector carries the list of all side sectors of the file,
  each entry with the track and the sector of its side sector. \<open>addRelFile\<close> stores the
  track twice and the sector never, and it never increments \<open>side_count\<close>: the entry
  names the side sector (18, 10), the first sibling entry of that side sector reads
  (18, 0).
\<close>

theorem addRelFile_sibling_entry_lacks_sector:
  "\<exists>d d'. new_disk35 = Ret d
     \<and> addRelFile d [0x52] (FileType_of REL) 2 [1, 2, 3, 4] = Some (Ret (True, d'))
     \<and> data d' 91651 = 18 \<and> data d' 91652 = 10
     \<and> data d' 93956 = 18 \<and> data d' 93957 = 0"
  using rel_example by blast

end
